theory Spec2Isabelle
  imports Complex_Main "HOL-Library.Sublist" "HOL-Library.Log_Nat"
begin

section \<open>The DeepSeek chat participant (extension.ts)\<close>

text \<open>
  The extension is a relay between two effectful interfaces: the editor's chat response
  stream and the Ollama client. Every call the handler makes on either of them, every
  console write and every telemetry record is an entry of one ordered trace, so that
  "what was written where, and in which order" is a property of a list. The answers of
  the outside world (configuration values, the outcome of each Ollama call) are the
  fields of a record the handler reads from.
\<close>

subsection \<open>Constants\<close>

definition BASE_PROMPT :: string where
  "BASE_PROMPT = ''You are a helpful assistant.''"

definition OLLAMA_HOST :: string where
  "OLLAMA_HOST = ''http://localhost:11434''"

definition MODEL :: string where
  "MODEL = ''deepseek-coder:1.3b''"

definition HIDDEN_ERROR_MESSAGE_PLACEHOLDER :: string where
  "HIDDEN_ERROR_MESSAGE_PLACEHOLDER = ''&nbsp;''"

subsection \<open>Data\<close>

text \<open>
  A thrown value is an object whose \<open>code\<close>, \<open>message\<close> and \<open>cause\<close> may each be
  absent (\<open>undefined\<close>); a present cause is an object whose \<open>code\<close> may be absent.
  Codes and messages are strings, \<open>Some []\<close> being the empty (falsy) string.
\<close>

record Cause =
  cause_code :: "string option"

record Err =
  err_code :: "string option"
  err_message :: "string option"
  err_cause :: "Cause option"

record Message =
  role :: string
  content :: string

text \<open>One chunk of the streaming chat answer; only its message is read.\<close>

record ChatResponse =
  message :: Message

text \<open>
  One event of the streaming pull. \<open>digest\<close>, \<open>completed\<close> and \<open>total\<close> are absent
  on some events; the counts are byte counts.
\<close>

record ProgressResponse =
  status :: string
  digest :: "string option"
  completed :: "nat option"
  total :: "nat option"

text \<open>
  A turn of the history. The adapter tests \<open>instanceof ChatResponseTurn\<close>, then
  \<open>instanceof ChatRequestTurn\<close>, and does nothing for a value of neither class. The
  parts of a response turn are markdown parts, each read through its text.
\<close>

datatype Turn =
    ChatRequestTurn string
  | ChatResponseTurn "string list"
  | OtherTurn

record ChatContext =
  history :: "Turn list"

record ChatRequest =
  prompt :: string

record ToolInformation =
  tool_name :: string
  tool_description :: string
  tool_inputSchema :: "string option"

record ToolFunction =
  fn_name :: string
  fn_description :: string
  fn_parameters :: "string option"

record Tool =
  tool_type :: string
  tool_function :: ToolFunction

record Metadata =
  command :: string

record IAgentChatResult =
  metadata :: Metadata

text \<open>The arguments of a console call.\<close>

datatype Logged =
    LStr string
  | LUndefined
  | LErr Err
  | LMessages "Message list"
  | LTools "Tool list"

text \<open>
  The trace. \<open>Progress\<close> and \<open>Markdown\<close> are the two calls on the chat response
  stream; \<open>StdoutWrite\<close> is \<open>process.stdout.write\<close>; \<open>LogError\<close> is the telemetry
  logger; the \<open>Ollama\<close> entries are the calls on the client.
\<close>

datatype Effect =
    OllamaPs
  | OllamaList
  | OllamaPull string
  | OllamaChat string "Message list"
  | Progress string
  | Markdown string
  | StdoutWrite string
  | ConsoleLog "Logged list"
  | ConsoleError "Logged list"
  | LogError Err

text \<open>An entry of the answer of \<open>ollama.list()\<close>; only its name is read.\<close>

record ModelResponse =
  name :: string

text \<open>
  What the outside world answers during one turn: the registered tools, the two
  configuration values (absent when unset), and the outcome of each Ollama operation
  (\<open>new_result\<close> is that of constructing the client, \<open>new Ollama({host})\<close>).
  A streaming operation either fails when it is opened, or delivers a list of items and
  then ends, normally or by raising.
\<close>

record World =
  lm_tools :: "ToolInformation list"
  cfg_model_name :: "string option"
  cfg_ollama_host :: "string option"
  new_result :: "Err option"
  ps_result :: "Err option"
  list_result :: "Err + ModelResponse list"
  pull_result :: "Err + (ProgressResponse list \<times> Err option)"
  chat_result :: "Err + (ChatResponse list \<times> Err option)"

text \<open>An item produced by a generator: an effect of its body, or a yielded value.\<close>

datatype 'a GenItem = Eff Effect | Yield 'a

subsection \<open>JavaScript strings and numbers\<close>

definition startsWith :: "string \<Rightarrow> string \<Rightarrow> bool" where
  "startsWith s p = prefix p s"

text \<open>Truthiness of an optional string: absent and empty are both falsy.\<close>

fun truthy_str :: "string option \<Rightarrow> bool" where
  "truthy_str None = False"
| "truthy_str (Some s) = (s \<noteq> [])"

text \<open>Truthiness of an optional number: absent and zero are both falsy.\<close>

fun truthy_num :: "nat option \<Rightarrow> bool" where
  "truthy_num None = False"
| "truthy_num (Some n) = (n \<noteq> 0)"

text \<open>An optional string inside a template literal.\<close>

fun template_str :: "string option \<Rightarrow> string" where
  "template_str None = ''undefined''"
| "template_str (Some s) = s"

definition digit_char :: "nat \<Rightarrow> char" where
  "digit_char d = ''0123456789'' ! d"

fun string_of_nat :: "nat \<Rightarrow> string" where
  "string_of_nat n =
     (if n < 10 then [digit_char n]
      else string_of_nat (n div 10) @ [digit_char (n mod 10)])"

subsection \<open>Configuration\<close>

definition readModelFromConfig :: "World \<Rightarrow> string" where
  "readModelFromConfig w = (case cfg_model_name w of Some v \<Rightarrow> v | None \<Rightarrow> MODEL)"

definition readOllamaHostFromConfig :: "World \<Rightarrow> string" where
  "readOllamaHostFromConfig w = (case cfg_ollama_host w of Some v \<Rightarrow> v | None \<Rightarrow> OLLAMA_HOST)"

subsection \<open>History adapter\<close>

text \<open>
  The inner \<open>forEach\<close> of \<open>appendAssistantHistory\<close>: \<open>fullMessage\<close> is the
  accumulator, extended by each part that does not start with the placeholder.
\<close>

fun response_parts :: "string list \<Rightarrow> string \<Rightarrow> string" where
  "response_parts [] fullMessage = fullMessage"
| "response_parts (v # rs) fullMessage =
     response_parts rs
       (if \<not> startsWith v HIDDEN_ERROR_MESSAGE_PLACEHOLDER then fullMessage @ v
        else fullMessage)"

text \<open>The outer \<open>forEach\<close>: \<open>messages\<close> is the array being pushed to.\<close>

fun history_loop :: "Turn list \<Rightarrow> Message list \<Rightarrow> Message list" where
  "history_loop [] messages = messages"
| "history_loop (ChatResponseTurn rs # ms) messages =
     (let fullMessage = response_parts rs [] in
      history_loop ms
        (if fullMessage \<noteq> []
         then messages @ [\<lparr>role = ''assistant'', content = fullMessage\<rparr>]
         else messages))"
| "history_loop (ChatRequestTurn p # ms) messages =
     history_loop ms (messages @ [\<lparr>role = ''user'', content = p\<rparr>])"
| "history_loop (OtherTurn # ms) messages = history_loop ms messages"

definition appendAssistantHistory :: "ChatContext \<Rightarrow> Message list" where
  "appendAssistantHistory context = history_loop (history context) []"

text \<open>The prompts of the user turns of a history, in order.\<close>

fun user_prompts :: "Turn list \<Rightarrow> string list" where
  "user_prompts [] = []"
| "user_prompts (ChatRequestTurn p # ms) = p # user_prompts ms"
| "user_prompts (_ # ms) = user_prompts ms"

subsection \<open>Model installer\<close>

text \<open>
  Numbers are IEEE binary64 values. \<open>to_double\<close> is the rounding every arithmetic
  operation ends with: the nearest value with a 53-bit significand, a tie going to the
  even significand. The exponent range is not modelled (no overflow to \<open>Infinity\<close>, no
  subnormal values); byte counts and their quotients stay far inside it.
\<close>

definition pow2 :: "int \<Rightarrow> rat" where
  "pow2 e = (if 0 \<le> e then 2 ^ nat e else 1 / 2 ^ nat (- e))"

definition round_half_even :: "rat \<Rightarrow> int" where
  "round_half_even r =
     (let f = \<lfloor>r\<rfloor>; d = r - of_int f
      in if d < 1 / 2 then f
         else if 1 / 2 < d then f + 1
         else if even f then f else f + 1)"

definition to_double :: "rat \<Rightarrow> rat" where
  "to_double x =
     (if x = 0 then 0
      else
        (let a = \<bar>x\<bar>;
             k = bitlen (fst (quotient_of a)) - bitlen (snd (quotient_of a));
             l = (if pow2 k \<le> a then k else k - 1);
             e = l - 52
         in sgn x * (of_int (round_half_even (a / pow2 e)) * pow2 e)))"

text \<open>\<open>Math.round\<close>: the nearest integer, a half going upwards.\<close>

definition Math_round :: "rat \<Rightarrow> int" where
  "Math_round x = \<lfloor>x + 1 / 2\<rfloor>"

text \<open>
  \<open>Math.round((completed / total) * 100)\<close>, guarded by the truthiness of both counts:
  the counts as doubles, their quotient rounded to a double, the product with 100 rounded
  to a double, and the result rounded to an integer.
\<close>

definition percent_of :: "ProgressResponse \<Rightarrow> nat" where
  "percent_of part =
     (case (completed part, total part) of
        (Some c, Some t) \<Rightarrow>
          (if c \<noteq> 0 \<and> t \<noteq> 0
           then nat (Math_round
                  (to_double (to_double (to_double (of_nat c) / to_double (of_nat t)) * 100)))
           else 0)
      | _ \<Rightarrow> 0)"

text \<open>
  The body of the \<open>for await\<close> loop of \<open>pullModel\<close> for one event: its effects and
  the new value of \<open>currentDigestDone\<close>.
\<close>

definition pull_part :: "bool \<Rightarrow> ProgressResponse \<Rightarrow> Effect list \<times> bool" where
  "pull_part currentDigestDone part =
     (if truthy_str (digest part) then
        (let percent = percent_of part;
             written = StdoutWrite (status part @ '' '' @ string_of_nat percent @ ''%...'')
         in if percent = 100 \<and> \<not> currentDigestDone
            then ([written, ConsoleLog []], True)
            else ([written], False))
      else ([Progress (status part @ ''...\<newline>''), ConsoleLog [LStr (status part)]],
            currentDigestDone))"

fun pull_loop :: "ProgressResponse list \<Rightarrow> bool \<Rightarrow> Effect list" where
  "pull_loop [] currentDigestDone = []"
| "pull_loop (part # parts) currentDigestDone =
     (case pull_part currentDigestDone part of
        (effects, currentDigestDone') \<Rightarrow> effects @ pull_loop parts currentDigestDone')"

definition pullModel :: "World \<Rightarrow> string \<Rightarrow> Effect list \<times> (Err + unit)" where
  "pullModel w model =
     (let opening =
            [ConsoleLog [LStr (''Pulling latest model '' @ model @ CHR 0x27 # ''s manifest...'')],
             OllamaPull model]
      in case pull_result w of
           Inl err \<Rightarrow> (opening, Inl err)
         | Inr (parts, failure) \<Rightarrow>
             (case failure of
                Some err \<Rightarrow> (opening @ pull_loop parts False, Inl err)
              | None \<Rightarrow>
                  (opening @ pull_loop parts False @
                     [Progress ''Download complete!\<newline>'',
                      ConsoleLog [LStr ''Download complete!'']],
                   Inr ())))"

definition assertOllamaRunning :: "World \<Rightarrow> Effect list \<times> (Err + unit)" where
  "assertOllamaRunning w =
     ([OllamaPs], case ps_result w of Some err \<Rightarrow> Inl err | None \<Rightarrow> Inr ())"

definition assertPullModel :: "World \<Rightarrow> string \<Rightarrow> Effect list \<times> (Err + unit)" where
  "assertPullModel w model =
     (case list_result w of
        Inl err \<Rightarrow> ([OllamaList], Inl err)
      | Inr models \<Rightarrow>
          (if length (filter (\<lambda>m. startsWith m model) (map name models)) = 0 then
             (case pullModel w model of
                (effects, outcome) \<Rightarrow>
                  ([OllamaList,
                    Progress (''Model '' @ model @ '' not found.\<newline>''),
                    Progress ''Installing model.\<newline>'',
                    Progress ''This might take a few minutes.\<newline>''] @ effects,
                   outcome))
           else ([OllamaList], Inr ())))"

subsection \<open>Error classifier\<close>

text \<open>\<open>err.cause?.code\<close>: absent when the cause is.\<close>

definition cause_code_of :: "Err \<Rightarrow> string option" where
  "cause_code_of err = (case err_cause err of None \<Rightarrow> None | Some c \<Rightarrow> cause_code c)"

text \<open>\<open>(err.code || err.cause?.code) || 'UNKNOWN'\<close>.\<close>

definition shown_code :: "Err \<Rightarrow> string" where
  "shown_code err =
     (if truthy_str (err_code err) then template_str (err_code err)
      else if truthy_str (cause_code_of err) then template_str (cause_code_of err)
      else ''UNKNOWN'')"

text \<open>
  The two texts. \<open>vscode.l10n.t\<close> returns its argument where the extension ships no
  translation, as here.
\<close>

definition connectivity_message :: "string \<Rightarrow> Err \<Rightarrow> string" where
  "connectivity_message host err =
     HIDDEN_ERROR_MESSAGE_PLACEHOLDER @
     ''I'm sorry, I cannot connect to the Ollama server.\<newline>\<newline>'' @
     ''Please check the following:\<newline>\<newline>'' @
     ''- The Ollama app is installed and running. Visit [ollama.com](https://ollama.com) for more details.\<newline>'' @
     ''- The Ollama server is running at ['' @ host @ '']('' @ host @ '')\<newline>'' @
     ''- The Ollama server URL is correct in your [settings.json](https://code.visualstudio.com/docs/getstarted/settings): `deepseek.ollama.host` \<newline>'' @
     ''- The Ollama server is accessible from this network.\<newline>\<newline>'' @
     ''Here is the error message: `'' @ template_str (err_message err) @
     '' (code: '' @ shown_code err @ '')`''"

definition generic_message :: string where
  "generic_message = ''I'm sorry, I can't help with that. Can I help with something else?''"

text \<open>The test of \<open>handleError\<close>.\<close>

definition connectivity_error :: "Err \<Rightarrow> bool" where
  "connectivity_error err =
     (err_code err = Some ''ERR_INVALID_URL'' \<or> cause_code_of err = Some ''ECONNREFUSED'')"

definition handleError :: "World \<Rightarrow> Err \<Rightarrow> Effect list" where
  "handleError w err =
     [LogError err, ConsoleLog [LErr err]] @
     (if connectivity_error err
      then [Markdown (connectivity_message (readOllamaHostFromConfig w) err)]
      else [Markdown generic_message])"

text \<open>
  The test as the specification words it: the code, read from the error or from its
  cause, is one of the two codes.
\<close>

definition spec_connectivity_error :: "Err \<Rightarrow> bool" where
  "spec_connectivity_error err =
     (err_code err = Some ''ERR_INVALID_URL'' \<or> err_code err = Some ''ECONNREFUSED'' \<or>
      cause_code_of err = Some ''ERR_INVALID_URL'' \<or> cause_code_of err = Some ''ECONNREFUSED'')"

subsection \<open>Response relay and handler\<close>

definition getTools :: "World \<Rightarrow> Tool list" where
  "getTools w =
     map (\<lambda>tool. \<lparr>tool_type = ''function'',
                   tool_function = \<lparr>fn_name = tool_name tool,
                                     fn_description = tool_description tool,
                                     fn_parameters = tool_inputSchema tool\<rparr>\<rparr>)
       (lm_tools w)"

text \<open>\<open>console.error(err.message)\<close>.\<close>

definition logged_message :: "Err \<Rightarrow> Logged" where
  "logged_message err = (case err_message err of None \<Rightarrow> LUndefined | Some m \<Rightarrow> LStr m)"

text \<open>
  The generator \<open>streamResponse\<close>: the effects of its body and the chunks it yields, in
  order. An error of the call or of the stream is caught inside the generator, which
  then ends.
\<close>

definition streamResponse ::
  "World \<Rightarrow> string \<Rightarrow> Message list \<Rightarrow> Tool list \<Rightarrow> ChatResponse GenItem list" where
  "streamResponse w model messages tools =
     [Eff (ConsoleLog [LStr ''Using model:'', LStr model]),
      Eff (ConsoleLog [LStr (readOllamaHostFromConfig w @ ''/api/chat'')]),
      Eff (ConsoleLog [LMessages messages]),
      Eff (ConsoleLog [LTools tools]),
      Eff (OllamaChat model messages)] @
     (case chat_result w of
        Inl err \<Rightarrow> [Eff (ConsoleError [logged_message err])]
      | Inr (chunks, failure) \<Rightarrow>
          map Yield chunks @
          (case failure of
             None \<Rightarrow> []
           | Some err \<Rightarrow> [Eff (ConsoleError [logged_message err])]))"

text \<open>The \<open>for await\<close> loop of the handler over the generator.\<close>

fun relay :: "ChatResponse GenItem list \<Rightarrow> Effect list" where
  "relay [] = []"
| "relay (Eff e # items) = e # relay items"
| "relay (Yield fragment # items) = Markdown (content (message fragment)) # relay items"

text \<open>The \<open>try\<close> block of \<open>agentHandler\<close>.\<close>

definition agentHandler_try ::
  "World \<Rightarrow> ChatRequest \<Rightarrow> ChatContext \<Rightarrow> Effect list \<times> (Err + unit)" where
  "agentHandler_try w request context =
     (let tools = getTools w;
          model = readModelFromConfig w
      in case new_result w of
           Some err \<Rightarrow> ([], Inl err)
         | None \<Rightarrow>
             (case assertOllamaRunning w of
                (e1, Inl err) \<Rightarrow> (e1, Inl err)
              | (e1, Inr _) \<Rightarrow>
                  (case assertPullModel w model of
                     (e2, Inl err) \<Rightarrow> (e1 @ e2, Inl err)
                   | (e2, Inr _) \<Rightarrow>
                       (let messages =
                              [\<lparr>role = ''user'', content = BASE_PROMPT\<rparr>] @
                              appendAssistantHistory context @
                              [\<lparr>role = ''user'', content = prompt request\<rparr>]
                        in (e1 @ e2 @ relay (streamResponse w model messages tools),
                            Inr ())))))"

definition agentHandler ::
  "World \<Rightarrow> ChatRequest \<Rightarrow> ChatContext \<Rightarrow> Effect list \<times> IAgentChatResult" where
  "agentHandler w request context =
     (case agentHandler_try w request context of
        (effects, Inl err) \<Rightarrow>
          (effects @ handleError w err, \<lparr>metadata = \<lparr>command = []\<rparr>\<rparr>)
      | (effects, Inr _) \<Rightarrow> (effects, \<lparr>metadata = \<lparr>command = []\<rparr>\<rparr>))"

subsection \<open>Projections of the trace\<close>

text \<open>The entries that reach the chat response stream.\<close>

fun on_stream :: "Effect \<Rightarrow> bool" where
  "on_stream (Progress _) = True"
| "on_stream (Markdown _) = True"
| "on_stream _ = False"

text \<open>The entries that reach the standard output of the process.\<close>

fun on_stdout :: "Effect \<Rightarrow> bool" where
  "on_stdout (StdoutWrite _) = True"
| "on_stdout (ConsoleLog _) = True"
| "on_stdout _ = False"

fun is_pull :: "Effect \<Rightarrow> bool" where
  "is_pull (OllamaPull _) = True"
| "is_pull _ = False"

fun is_chat :: "Effect \<Rightarrow> bool" where
  "is_chat (OllamaChat _ _) = True"
| "is_chat _ = False"

fun is_shown_or_recorded :: "Effect \<Rightarrow> bool" where
  "is_shown_or_recorded (Markdown _) = True"
| "is_shown_or_recorded (LogError _) = True"
| "is_shown_or_recorded _ = False"

fun is_markdown :: "Effect \<Rightarrow> bool" where
  "is_markdown (Markdown _) = True"
| "is_markdown _ = False"

subsection \<open>Example inputs\<close>

text \<open>A turn in which the server answers and the model is installed.\<close>

definition world_ready :: World where
  "world_ready =
     \<lparr>lm_tools = [], cfg_model_name = None, cfg_ollama_host = None,
      new_result = None, ps_result = None,
      list_result = Inr [\<lparr>name = ''deepseek-coder:1.3b''\<rparr>],
      pull_result = Inr ([], None),
      chat_result =
        Inr ([\<lparr>message = \<lparr>role = ''assistant'', content = ''Hel''\<rparr>\<rparr>,
              \<lparr>message = \<lparr>role = ''assistant'', content = ''lo''\<rparr>\<rparr>], None)\<rparr>"

text \<open>An error carrying nothing but a message.\<close>

definition plain_error :: "string \<Rightarrow> Err" where
  "plain_error m = \<lparr>err_code = None, err_message = Some m, err_cause = None\<rparr>"

text \<open>A pull event reporting a fully downloaded layer.\<close>

definition layer_done :: ProgressResponse where
  "layer_done =
     \<lparr>status = ''pulling 6e4c38e1172f'', digest = Some ''sha256:6e4c38e1172f'',
      completed = Some 5, total = Some 5\<rparr>"

text \<open>The pull event that ends a successful pull; it carries no digest.\<close>

definition pull_success :: ProgressResponse where
  "pull_success = \<lparr>status = ''success'', digest = None, completed = None, total = None\<rparr>"

text \<open>An error whose own code is the connection-refused code; it has no cause.\<close>

definition refused_directly :: Err where
  "refused_directly =
     \<lparr>err_code = Some ''ECONNREFUSED'',
      err_message = Some ''connect ECONNREFUSED 127.0.0.1:11434'', err_cause = None\<rparr>"

text \<open>The error of a malformed server address.\<close>

definition invalid_url :: Err where
  "invalid_url =
     \<lparr>err_code = Some ''ERR_INVALID_URL'', err_message = Some ''Invalid URL'',
      err_cause = None\<rparr>"

text \<open>A turn whose chat stream delivers one chunk and then raises.\<close>

definition world_stream_breaks :: World where
  "world_stream_breaks =
     world_ready
       \<lparr>chat_result :=
          Inr ([\<lparr>message = \<lparr>role = ''assistant'', content = ''Hel''\<rparr>\<rparr>],
               Some (plain_error ''unexpected EOF''))\<rparr>"

section \<open>Properties\<close>

subsection \<open>History adapter\<close>

lemma response_parts_acc:
  "response_parts rs acc =
     acc @ concat (filter (\<lambda>v. \<not> startsWith v HIDDEN_ERROR_MESSAGE_PLACEHOLDER) rs)"
  by (induction rs arbitrary: acc) simp_all

lemma history_loop_acc: "history_loop ms acc = acc @ history_loop ms []"
proof (induction ms arbitrary: acc)
  case Nil
  show ?case by simp
next
  case (Cons m ms)
  show ?case
  proof (cases m)
    case (ChatRequestTurn p)
    then show ?thesis
      using Cons.IH[of "acc @ [\<lparr>role = ''user'', content = p\<rparr>]"]
        Cons.IH[of "[\<lparr>role = ''user'', content = p\<rparr>]"]
      by simp
  next
    case (ChatResponseTurn rs)
    then show ?thesis
      using Cons.IH[of "acc @ [\<lparr>role = ''assistant'', content = response_parts rs []\<rparr>]"]
        Cons.IH[of "[\<lparr>role = ''assistant'', content = response_parts rs []\<rparr>]"]
        Cons.IH[of acc]
      by (simp add: Let_def)
  next
    case OtherTurn
    then show ?thesis using Cons.IH[of acc] by simp
  qed
qed

lemma history_loop_append:
  "history_loop (xs @ ys) [] = history_loop xs [] @ history_loop ys []"
proof (induction xs)
  case Nil
  show ?case by simp
next
  case (Cons m xs)
  show ?case
  proof (cases m)
    case (ChatRequestTurn p)
    then show ?thesis
      using Cons.IH
        history_loop_acc[of "xs @ ys" "[\<lparr>role = ''user'', content = p\<rparr>]"]
        history_loop_acc[of xs "[\<lparr>role = ''user'', content = p\<rparr>]"]
      by simp
  next
    case (ChatResponseTurn rs)
    then show ?thesis
      using Cons.IH
        history_loop_acc[of "xs @ ys" "[\<lparr>role = ''assistant'', content = response_parts rs []\<rparr>]"]
        history_loop_acc[of xs "[\<lparr>role = ''assistant'', content = response_parts rs []\<rparr>]"]
      by (simp add: Let_def)
  next
    case OtherTurn
    then show ?thesis using Cons.IH by simp
  qed
qed

lemma appendAssistantHistory_append:
  "appendAssistantHistory \<lparr>history = xs @ ys\<rparr> =
     appendAssistantHistory \<lparr>history = xs\<rparr> @ appendAssistantHistory \<lparr>history = ys\<rparr>"
  by (simp add: appendAssistantHistory_def history_loop_append)

lemma user_prompts_append: "user_prompts (xs @ ys) = user_prompts xs @ user_prompts ys"
  by (induction xs rule: user_prompts.induct) simp_all

lemma history_loop_user_filter:
  "filter (\<lambda>m. role m = ''user'') (history_loop ms []) =
     map (\<lambda>p. \<lparr>role = ''user'', content = p\<rparr>) (user_prompts ms)"
proof (induction ms)
  case Nil
  show ?case by simp
next
  case (Cons m ms)
  show ?case
  proof (cases m)
    case (ChatRequestTurn p)
    then show ?thesis
      using Cons.IH history_loop_acc[of ms "[\<lparr>role = ''user'', content = p\<rparr>]"]
      by simp
  next
    case (ChatResponseTurn rs)
    then show ?thesis
      using Cons.IH
        history_loop_acc[of ms "[\<lparr>role = ''assistant'', content = response_parts rs []\<rparr>]"]
      by (simp add: Let_def)
  next
    case OtherTurn
    then show ?thesis using Cons.IH by simp
  qed
qed

text \<open>
  C3. An assistant turn anywhere in the history contributes, at its place among the
  messages of the turns before and after it, one message of role assistant whose content
  is the concatenation, in order, of exactly the parts that do not begin with the
  placeholder; and it contributes no message when that concatenation is empty. When
  every part begins with the placeholder the concatenation is empty.
\<close>

theorem appendAssistantHistory_assistant_turn:
  "appendAssistantHistory \<lparr>history = before @ [ChatResponseTurn parts] @ after\<rparr> =
     appendAssistantHistory \<lparr>history = before\<rparr> @
     (let kept = concat (filter (\<lambda>v. \<not> prefix HIDDEN_ERROR_MESSAGE_PLACEHOLDER v) parts) in
      if kept = [] then [] else [\<lparr>role = ''assistant'', content = kept\<rparr>]) @
     appendAssistantHistory \<lparr>history = after\<rparr>
   \<and> (list_all (prefix HIDDEN_ERROR_MESSAGE_PLACEHOLDER) parts \<longrightarrow>
        appendAssistantHistory \<lparr>history = before @ [ChatResponseTurn parts] @ after\<rparr> =
          appendAssistantHistory \<lparr>history = before\<rparr> @
          appendAssistantHistory \<lparr>history = after\<rparr>)"
proof -
  let ?kept = "concat (filter (\<lambda>v. \<not> prefix HIDDEN_ERROR_MESSAGE_PLACEHOLDER v) parts)"
  have one: "appendAssistantHistory \<lparr>history = [ChatResponseTurn parts]\<rparr> =
      (if ?kept = [] then [] else [\<lparr>role = ''assistant'', content = ?kept\<rparr>])"
    by (simp add: appendAssistantHistory_def Let_def response_parts_acc startsWith_def)
  have split: "appendAssistantHistory \<lparr>history = before @ [ChatResponseTurn parts] @ after\<rparr> =
      appendAssistantHistory \<lparr>history = before\<rparr> @
      appendAssistantHistory \<lparr>history = [ChatResponseTurn parts]\<rparr> @
      appendAssistantHistory \<lparr>history = after\<rparr>"
    by (simp only: appendAssistantHistory_append)
  have none: "list_all (prefix HIDDEN_ERROR_MESSAGE_PLACEHOLDER) parts \<Longrightarrow> ?kept = []"
    by (induction parts) simp_all
  show ?thesis
    using one split none by (simp add: Let_def)
qed

theorem appendAssistantHistory_assistant_turn_witness:
  "appendAssistantHistory
     \<lparr>history = [ChatRequestTurn ''hi''] @ [ChatResponseTurn [''&nbsp;oops'', ''&nbsp;again'']] @
        [ChatResponseTurn [''a'', ''&nbsp;err'', ''b'']]\<rparr> =
   [\<lparr>role = ''user'', content = ''hi''\<rparr>, \<lparr>role = ''assistant'', content = ''ab''\<rparr>]
   \<and> list_all (prefix HIDDEN_ERROR_MESSAGE_PLACEHOLDER) [''&nbsp;oops'', ''&nbsp;again'']"
  using appendAssistantHistory_assistant_turn
    [of "[ChatRequestTurn ''hi'']" "[''&nbsp;oops'', ''&nbsp;again'']"
        "[ChatResponseTurn [''a'', ''&nbsp;err'', ''b'']]"]
  by (simp add: appendAssistantHistory_def HIDDEN_ERROR_MESSAGE_PLACEHOLDER_def Let_def
      startsWith_def)

text \<open>
  C4. The messages of role user among the adapter's output are, one for one and in order,
  the prompts of the user turns, each with exactly the turn's prompt as content; and a
  user turn anywhere in the history contributes its message at its place among the
  messages of the turns before and after it.
\<close>

theorem appendAssistantHistory_user_turns:
  "filter (\<lambda>m. role m = ''user'') (appendAssistantHistory \<lparr>history = h\<rparr>) =
     map (\<lambda>p. \<lparr>role = ''user'', content = p\<rparr>) (user_prompts h)
   \<and> appendAssistantHistory \<lparr>history = before @ [ChatRequestTurn p] @ after\<rparr> =
       appendAssistantHistory \<lparr>history = before\<rparr> @ [\<lparr>role = ''user'', content = p\<rparr>] @
       appendAssistantHistory \<lparr>history = after\<rparr>"
proof -
  have one: "appendAssistantHistory \<lparr>history = [ChatRequestTurn p]\<rparr> =
      [\<lparr>role = ''user'', content = p\<rparr>]"
    by (simp add: appendAssistantHistory_def)
  have split: "appendAssistantHistory \<lparr>history = before @ [ChatRequestTurn p] @ after\<rparr> =
      appendAssistantHistory \<lparr>history = before\<rparr> @
      appendAssistantHistory \<lparr>history = [ChatRequestTurn p]\<rparr> @
      appendAssistantHistory \<lparr>history = after\<rparr>"
    by (simp only: appendAssistantHistory_append)
  show ?thesis
    using one split by (simp add: appendAssistantHistory_def history_loop_user_filter)
qed

subsection \<open>Doubles\<close>

lemma pow2_powi: "pow2 e = 2 powi e"
  by (simp add: pow2_def power_int_def power_one_over inverse_eq_divide)

lemma pow2_pos: "0 < pow2 e"
  by (simp add: pow2_powi)

lemma round_half_even_floor: "\<lfloor>r\<rfloor> \<le> round_half_even r"
  by (simp add: round_half_even_def Let_def)

lemma round_half_even_of_int: "round_half_even (of_int n) = n"
  by (simp add: round_half_even_def Let_def)

lemma quotient_lower:
  assumes "0 < a"
  shows "pow2 (bitlen (fst (quotient_of a)) - bitlen (snd (quotient_of a)) - 1) \<le> a"
proof -
  obtain p q where pq: "quotient_of a = (p, q)"
    by (cases "quotient_of a")
  have q: "0 < q" using pq by (rule quotient_of_denom_pos)
  have a: "a = of_int p / of_int q" using pq by (rule quotient_of_div)
  have p: "0 < p" using assms q a by (simp add: zero_less_divide_iff)
  have bp: "0 \<le> bitlen p - 1" using p by (simp add: bitlen_alt_def)
  have bq: "0 \<le> bitlen q" by (rule bitlen_nonneg)
  have "rat_of_int (2 ^ nat (bitlen p - 1)) \<le> of_int p"
    using bitlen_bounds[OF p] by (simp only: of_int_le_iff)
  then have lo: "(2::rat) powi (bitlen p - 1) \<le> of_int p"
    using bp by (simp add: power_int_def)
  have "rat_of_int q \<le> of_int (2 ^ nat (bitlen q))"
    using bitlen_bounds[OF q] by (simp only: of_int_le_iff less_imp_le)
  then have hi: "of_int q \<le> (2::rat) powi (bitlen q)"
    using bq by (simp add: power_int_def)
  have "(2::rat) powi (bitlen p - 1 - bitlen q) = 2 powi (bitlen p - 1) / 2 powi (bitlen q)"
    by (simp add: power_int_diff)
  also have "\<dots> \<le> of_int p / of_int q"
    by (rule frac_le) (use lo hi q p in simp_all)
  finally show ?thesis
    using pq a by (simp add: pow2_powi algebra_simps)
qed

lemma to_double_pos:
  assumes "0 < x"
  shows "0 < to_double x"
proof -
  define k where "k = bitlen (fst (quotient_of x)) - bitlen (snd (quotient_of x))"
  define l where "l = (if pow2 k \<le> x then k else k - 1)"
  have low: "pow2 l \<le> x"
    using quotient_lower[OF assms] by (simp add: l_def k_def)
  have "pow2 l / pow2 (l - 52) = 2 powi 52"
    by (simp add: pow2_powi power_int_diff)
  then have "(1::rat) \<le> pow2 l / pow2 (l - 52)"
    by simp
  also have "\<dots> \<le> x / pow2 (l - 52)"
    using low pow2_pos[of "l - 52"] by (simp add: divide_right_mono)
  finally have "rat_of_int 1 \<le> x / pow2 (l - 52)"
    by simp
  then have "1 \<le> \<lfloor>x / pow2 (l - 52)\<rfloor>"
    by (simp only: le_floor_iff)
  then have "1 \<le> round_half_even (x / pow2 (l - 52))"
    using round_half_even_floor[of "x / pow2 (l - 52)"] by (rule order_trans)
  then have "0 < rat_of_int (round_half_even (x / pow2 (l - 52))) * pow2 (l - 52)"
    using pow2_pos[of "l - 52"] by (simp add: zero_less_mult_iff)
  moreover have "to_double x =
      rat_of_int (round_half_even (x / pow2 (l - 52))) * pow2 (l - 52)"
    using assms by (simp add: to_double_def Let_def l_def k_def)
  ultimately show ?thesis
    by (simp only:)
qed

lemma to_double_1: "to_double 1 = 1"
  by code_simp

lemma to_double_100: "to_double 100 = 100"
  by code_simp

lemma Math_round_100: "Math_round 100 = 100"
  by code_simp

subsection \<open>Model installer\<close>

lemma percent_of_complete:
  assumes "completed part = Some c" and "total part = Some c" and "c \<noteq> 0"
  shows "percent_of part = 100"
proof -
  have "0 < to_double (of_nat c)"
    using assms(3) by (intro to_double_pos) simp
  then have one: "to_double (of_nat c) / to_double (of_nat c) = 1"
    by simp
  have "percent_of part =
      nat (Math_round
        (to_double (to_double (to_double (of_nat c) / to_double (of_nat c)) * 100)))"
    using assms by (simp add: percent_of_def)
  also have "\<dots> = nat (Math_round (to_double (1 * 100)))"
    by (simp only: one to_double_1)
  also have "\<dots> = 100"
    by (simp add: to_double_100 Math_round_100)
  finally show ?thesis .
qed

lemma percent_of_examples:
  "percent_of \<lparr>status = [], digest = None, completed = Some 23, total = Some 40\<rparr> = 57"
  "percent_of \<lparr>status = [], digest = None, completed = Some 201, total = Some 200\<rparr> = 100"
  "percent_of \<lparr>status = [], digest = None, completed = Some 199, total = Some 200\<rparr> = 100"
  "percent_of \<lparr>status = [], digest = None, completed = Some 5, total = Some 0\<rparr> = 0"
  by code_simp+

lemma pull_part_first_complete:
  "truthy_str (digest part) \<Longrightarrow> percent_of part = 100 \<Longrightarrow>
     pull_part False part =
       ([StdoutWrite (status part @ '' '' @ string_of_nat 100 @ ''%...''), ConsoleLog []], True)"
  by (simp add: pull_part_def Let_def)

lemma pull_part_stream:
  "filter on_stream (fst (pull_part d part)) =
     (if truthy_str (digest part) then [] else [Progress (status part @ ''...\<newline>'')])"
  by (simp add: pull_part_def Let_def)

lemma pull_part_no_calls:
  "filter is_pull (fst (pull_part d part)) = []"
  "filter is_chat (fst (pull_part d part)) = []"
  "filter is_markdown (fst (pull_part d part)) = []"
  by (simp_all add: pull_part_def Let_def)

lemma pull_loop_stream:
  "filter on_stream (pull_loop parts d) =
     map (\<lambda>part. Progress (status part @ ''...\<newline>''))
       (filter (\<lambda>part. \<not> truthy_str (digest part)) parts)"
proof (induction parts arbitrary: d)
  case Nil
  show ?case by simp
next
  case (Cons part parts)
  obtain es d' where step: "pull_part d part = (es, d')"
    by (cases "pull_part d part")
  have "filter on_stream es =
      (if truthy_str (digest part) then [] else [Progress (status part @ ''...\<newline>'')])"
    using pull_part_stream[of d part] step by simp
  then show ?case
    using step Cons.IH[of d'] by simp
qed

lemma pull_loop_filter_none:
  assumes "\<And>d part. filter P (fst (pull_part d part)) = []"
  shows "filter P (pull_loop parts d) = []"
proof (induction parts arbitrary: d)
  case Nil
  show ?case by simp
next
  case (Cons part parts)
  obtain es d' where step: "pull_part d part = (es, d')"
    by (cases "pull_part d part")
  have "filter P es = []"
    using assms[of d part] step by simp
  moreover have "filter P (pull_loop parts d') = []"
    by (rule Cons.IH)
  moreover have "pull_loop (part # parts) d = es @ pull_loop parts d'"
    by (simp add: step)
  ultimately show ?case
    by (simp only: filter_append append_Nil)
qed

lemma pull_loop_no_calls:
  "filter is_pull (pull_loop parts d) = []"
  "filter is_chat (pull_loop parts d) = []"
  "filter is_markdown (pull_loop parts d) = []"
  by (rule pull_loop_filter_none, rule pull_part_no_calls)+

lemma pullModel_calls:
  "filter is_pull (fst (pullModel w model)) = [OllamaPull model]"
  "filter is_chat (fst (pullModel w model)) = []"
  "filter is_markdown (fst (pullModel w model)) = []"
  by (simp_all add: pullModel_def Let_def pull_loop_no_calls
      split: sum.splits option.splits prod.splits)

lemma assertPullModel_calls:
  "filter is_chat (fst (assertPullModel w model)) = []"
  "filter is_markdown (fst (assertPullModel w model)) = []"
proof -
  obtain es r where pm: "pullModel w model = (es, r)"
    by (cases "pullModel w model")
  have es: "filter is_chat es = []" "filter is_markdown es = []"
    using pullModel_calls(2,3)[of w model] pm by simp_all
  show "filter is_chat (fst (assertPullModel w model)) = []"
    using pm es by (simp add: assertPullModel_def split: sum.splits)
  show "filter is_markdown (fst (assertPullModel w model)) = []"
    using pm es by (simp add: assertPullModel_def split: sum.splits)
qed

text \<open>
  C2. Three consecutive events of one digest, each with completed equal to total: the
  percentage is 100 each time, and the line break (\<open>console.log()\<close>) is written after
  the first event and again after the third. The \<open>else\<close> branch clears
  \<open>currentDigestDone\<close> on the second event, which is itself a 100 percent event.
\<close>

theorem pullModel_line_break_repeats:
  "percent_of layer_done = 100 \<and>
   pull_loop [layer_done, layer_done, layer_done] False =
     [StdoutWrite ''pulling 6e4c38e1172f 100%...'', ConsoleLog [],
      StdoutWrite ''pulling 6e4c38e1172f 100%...'',
      StdoutWrite ''pulling 6e4c38e1172f 100%...'', ConsoleLog []]"
  by code_simp

text \<open>
  C6. With the list of installed models received: when no installed name starts with the
  requested name, the trace is the list call, the three progress notifications and then
  the trace of \<open>pullModel\<close>, in which \<open>ollama.pull\<close> is called exactly once; when
  some installed name does, the trace is the list call alone, the function returns
  normally and \<open>ollama.pull\<close> is not called.
\<close>

theorem assertPullModel_pulls_once:
  assumes "list_result w = Inr models"
  shows "if filter (\<lambda>m. startsWith m model) (map name models) = []
         then fst (assertPullModel w model) =
                [OllamaList,
                 Progress (''Model '' @ model @ '' not found.\<newline>''),
                 Progress ''Installing model.\<newline>'',
                 Progress ''This might take a few minutes.\<newline>''] @
                fst (pullModel w model)
              \<and> snd (assertPullModel w model) = snd (pullModel w model)
              \<and> filter is_pull (fst (pullModel w model)) = [OllamaPull model]
              \<and> filter is_pull (fst (assertPullModel w model)) = [OllamaPull model]
         else assertPullModel w model = ([OllamaList], Inr ())
              \<and> filter is_pull (fst (assertPullModel w model)) = []"
proof (cases "filter (\<lambda>m. startsWith m model) (map name models) = []")
  case True
  obtain es r where pm: "pullModel w model = (es, r)"
    by (cases "pullModel w model")
  have pulls: "filter is_pull es = [OllamaPull model]"
    using pullModel_calls(1)[of w model] pm by simp
  have len: "length (filter (\<lambda>m. startsWith m model) (map name models)) = 0"
    using True by (simp only: list.size)
  have run: "assertPullModel w model =
      ([OllamaList,
        Progress (''Model '' @ model @ '' not found.\<newline>''),
        Progress ''Installing model.\<newline>'',
        Progress ''This might take a few minutes.\<newline>''] @ es, r)"
    unfolding assertPullModel_def
    by (simp only: assms sum.case len if_True pm prod.case simp_thms)
  show ?thesis
    using True pulls by (simp add: run pm)
next
  case False
  have len: "length (filter (\<lambda>m. startsWith m model) (map name models)) \<noteq> 0"
    using False by (simp only: length_0_conv not_False_eq_True)
  have run: "assertPullModel w model = ([OllamaList], Inr ())"
    unfolding assertPullModel_def
    by (simp only: assms sum.case len if_False simp_thms)
  show ?thesis
    using False by (simp add: run)
qed

theorem assertPullModel_pulls_once_witness:
  "list_result (world_ready\<lparr>list_result := Inr [\<lparr>name = ''llama3:8b''\<rparr>]\<rparr>) =
     Inr [\<lparr>name = ''llama3:8b''\<rparr>]
   \<and> filter (\<lambda>m. startsWith m ''deepseek-coder:1.3b'') (map name [\<lparr>name = ''llama3:8b''\<rparr>]) = []
   \<and> filter is_pull
       (fst (assertPullModel (world_ready\<lparr>list_result := Inr [\<lparr>name = ''llama3:8b''\<rparr>]\<rparr>)
          ''deepseek-coder:1.3b'')) =
     [OllamaPull ''deepseek-coder:1.3b'']
   \<and> list_result world_ready = Inr [\<lparr>name = ''deepseek-coder:1.3b''\<rparr>]
   \<and> assertPullModel world_ready ''deepseek-coder:1.3b'' = ([OllamaList], Inr ())"
  using assertPullModel_pulls_once
      [of "world_ready\<lparr>list_result := Inr [\<lparr>name = ''llama3:8b''\<rparr>]\<rparr>"
          "[\<lparr>name = ''llama3:8b''\<rparr>]" "''deepseek-coder:1.3b''"]
    assertPullModel_pulls_once
      [of world_ready "[\<lparr>name = ''deepseek-coder:1.3b''\<rparr>]" "''deepseek-coder:1.3b''"]
  by (simp add: world_ready_def startsWith_def)

text \<open>
  C10. An event that carries a digest writes to the standard output only and nothing to
  the chat response stream. What the chat response stream receives from a pull is one
  progress line for each event without a digest, in order, followed by the final
  "Download complete!" notification when the pull ends normally; so the events that
  carry a digest can be removed from the pull without changing what the stream receives.
\<close>

theorem pullModel_stream_frame:
  "(truthy_str (digest part) \<longrightarrow>
      filter on_stream (fst (pull_part d part)) = [] \<and>
      filter on_stdout (fst (pull_part d part)) = fst (pull_part d part))
   \<and> filter on_stream (fst (pullModel w model)) =
       (case pull_result w of
          Inl err \<Rightarrow> []
        | Inr (parts, failure) \<Rightarrow>
            map (\<lambda>part. Progress (status part @ ''...\<newline>''))
              (filter (\<lambda>part. \<not> truthy_str (digest part)) parts) @
            (case failure of
               None \<Rightarrow> [Progress ''Download complete!\<newline>'']
             | Some err \<Rightarrow> []))
   \<and> filter on_stream (pull_loop parts d) =
       filter on_stream (pull_loop (filter (\<lambda>part. \<not> truthy_str (digest part)) parts) d')"
proof -
  have one: "truthy_str (digest part) \<longrightarrow>
      filter on_stream (fst (pull_part d part)) = [] \<and>
      filter on_stdout (fst (pull_part d part)) = fst (pull_part d part)"
    by (simp add: pull_part_def Let_def)
  have whole: "filter on_stream (fst (pullModel w model)) =
       (case pull_result w of
          Inl err \<Rightarrow> []
        | Inr (parts, failure) \<Rightarrow>
            map (\<lambda>part. Progress (status part @ ''...\<newline>''))
              (filter (\<lambda>part. \<not> truthy_str (digest part)) parts) @
            (case failure of
               None \<Rightarrow> [Progress ''Download complete!\<newline>'']
             | Some err \<Rightarrow> []))"
    by (simp add: pullModel_def Let_def pull_loop_stream
        split: sum.splits option.splits prod.splits)
  have frame: "filter on_stream (pull_loop parts d) =
       filter on_stream (pull_loop (filter (\<lambda>part. \<not> truthy_str (digest part)) parts) d')"
    by (simp add: pull_loop_stream)
  show ?thesis
    using one whole frame by blast
qed

theorem pullModel_stream_frame_witness:
  "truthy_str (digest layer_done)
   \<and> filter on_stream (fst (pull_part False layer_done)) = []
   \<and> filter on_stream
       (fst (pullModel (world_ready\<lparr>pull_result := Inr ([layer_done, pull_success], None)\<rparr>)
          ''deepseek-coder:1.3b'')) =
     [Progress ''success...\<newline>'', Progress ''Download complete!\<newline>'']"
  using pullModel_stream_frame
      [of layer_done False "world_ready\<lparr>pull_result := Inr ([layer_done, pull_success], None)\<rparr>"
          "''deepseek-coder:1.3b''"]
  by (simp add: layer_done_def pull_success_def world_ready_def)

subsection \<open>Error classifier\<close>

text \<open>
  C1, as stated, fails: an error whose own code is the connection-refused code is, in the
  specification's words, a connectivity error, and the classifier renders the generic
  message for it, which does not begin with the placeholder.
\<close>

theorem handleError_direct_refused_counterexample:
  "spec_connectivity_error refused_directly
   \<and> handleError world_ready refused_directly =
       [LogError refused_directly, ConsoleLog [LErr refused_directly],
        Markdown generic_message]
   \<and> \<not> prefix HIDDEN_ERROR_MESSAGE_PLACEHOLDER generic_message"
  by (simp add: spec_connectivity_error_def refused_directly_def handleError_def
      connectivity_error_def cause_code_of_def generic_message_def
      HIDDEN_ERROR_MESSAGE_PLACEHOLDER_def)

text \<open>
  C1, amended. The classifier renders the connectivity message exactly when the error's
  own code is the invalid-URL code or the code of its cause is the connection-refused
  code, and the generic message for every other error. The connectivity message begins
  with the placeholder, names the configured host and includes the error's message and
  code; the generic message does not begin with the placeholder.
\<close>

theorem handleError_classification:
  "handleError w err =
     [LogError err, ConsoleLog [LErr err],
      Markdown
        (if err_code err = Some ''ERR_INVALID_URL'' \<or> cause_code_of err = Some ''ECONNREFUSED''
         then connectivity_message (readOllamaHostFromConfig w) err
         else generic_message)]
   \<and> prefix HIDDEN_ERROR_MESSAGE_PLACEHOLDER (connectivity_message host err)
   \<and> (\<exists>a b. connectivity_message host err = a @ host @ b)
   \<and> (\<exists>a b. connectivity_message host err =
          a @ template_str (err_message err) @ '' (code: '' @ shown_code err @ b)
   \<and> \<not> prefix HIDDEN_ERROR_MESSAGE_PLACEHOLDER generic_message
   \<and> connectivity_message host err \<noteq> generic_message"
proof -
  have run: "handleError w err =
     [LogError err, ConsoleLog [LErr err],
      Markdown
        (if err_code err = Some ''ERR_INVALID_URL'' \<or> cause_code_of err = Some ''ECONNREFUSED''
         then connectivity_message (readOllamaHostFromConfig w) err
         else generic_message)]"
    by (simp add: handleError_def connectivity_error_def)
  have marked: "prefix HIDDEN_ERROR_MESSAGE_PLACEHOLDER (connectivity_message host err)"
    unfolding connectivity_message_def by (rule prefixI) (rule refl)
  have host:
    "connectivity_message host err =
       (HIDDEN_ERROR_MESSAGE_PLACEHOLDER @
        ''I'm sorry, I cannot connect to the Ollama server.\<newline>\<newline>'' @
        ''Please check the following:\<newline>\<newline>'' @
        ''- The Ollama app is installed and running. Visit [ollama.com](https://ollama.com) for more details.\<newline>'' @
        ''- The Ollama server is running at ['') @ host @
       ('']('' @ host @ '')\<newline>'' @
        ''- The Ollama server URL is correct in your [settings.json](https://code.visualstudio.com/docs/getstarted/settings): `deepseek.ollama.host` \<newline>'' @
        ''- The Ollama server is accessible from this network.\<newline>\<newline>'' @
        ''Here is the error message: `'' @ template_str (err_message err) @
        '' (code: '' @ shown_code err @ '')`'')"
    unfolding connectivity_message_def by (simp only: append_assoc)
  have detail:
    "connectivity_message host err =
       (HIDDEN_ERROR_MESSAGE_PLACEHOLDER @
        ''I'm sorry, I cannot connect to the Ollama server.\<newline>\<newline>'' @
        ''Please check the following:\<newline>\<newline>'' @
        ''- The Ollama app is installed and running. Visit [ollama.com](https://ollama.com) for more details.\<newline>'' @
        ''- The Ollama server is running at ['' @ host @ '']('' @ host @ '')\<newline>'' @
        ''- The Ollama server URL is correct in your [settings.json](https://code.visualstudio.com/docs/getstarted/settings): `deepseek.ollama.host` \<newline>'' @
        ''- The Ollama server is accessible from this network.\<newline>\<newline>'' @
        ''Here is the error message: `'') @
       template_str (err_message err) @ '' (code: '' @ shown_code err @ '')`''"
    unfolding connectivity_message_def by (simp only: append_assoc)
  have plain: "\<not> prefix HIDDEN_ERROR_MESSAGE_PLACEHOLDER generic_message"
    by (simp add: generic_message_def HIDDEN_ERROR_MESSAGE_PLACEHOLDER_def)
  have differ: "connectivity_message host err \<noteq> generic_message"
    using marked plain by auto
  have named: "\<exists>a b. connectivity_message host err = a @ host @ b"
    using host by blast
  have detailed: "\<exists>a b. connectivity_message host err =
      a @ template_str (err_message err) @ '' (code: '' @ shown_code err @ b"
    using detail by blast
  show ?thesis
    using run marked named detailed plain differ by (simp only: simp_thms)
qed

theorem handleError_classification_witness:
  "handleError world_ready invalid_url =
     [LogError invalid_url, ConsoleLog [LErr invalid_url],
      Markdown (connectivity_message ''http://localhost:11434'' invalid_url)]
   \<and> handleError world_ready (plain_error ''model not found'') =
     [LogError (plain_error ''model not found''),
      ConsoleLog [LErr (plain_error ''model not found'')],
      Markdown generic_message]
   \<and> prefix ''&nbsp;'' (connectivity_message ''http://localhost:11434'' invalid_url)"
  using handleError_classification[of world_ready invalid_url "''http://localhost:11434''"]
    handleError_classification
      [of world_ready "plain_error ''model not found''" "''http://localhost:11434''"]
  by (simp add: invalid_url_def plain_error_def world_ready_def readOllamaHostFromConfig_def
      OLLAMA_HOST_def cause_code_of_def HIDDEN_ERROR_MESSAGE_PLACEHOLDER_def)

subsection \<open>Relay and handler\<close>

lemma relay_append: "relay (xs @ ys) = relay xs @ relay ys"
  by (induction xs rule: relay.induct) simp_all

lemma relay_yields:
  "relay (map Yield chunks) = map (\<lambda>c. Markdown (content (message c))) chunks"
  by (induction chunks) simp_all

lemma relay_streamResponse:
  "relay (streamResponse w model messages tools) =
     [ConsoleLog [LStr ''Using model:'', LStr model],
      ConsoleLog [LStr (readOllamaHostFromConfig w @ ''/api/chat'')],
      ConsoleLog [LMessages messages],
      ConsoleLog [LTools tools],
      OllamaChat model messages] @
     (case chat_result w of
        Inl err \<Rightarrow> [ConsoleError [logged_message err]]
      | Inr (chunks, failure) \<Rightarrow>
          map (\<lambda>c. Markdown (content (message c))) chunks @
          (case failure of
             None \<Rightarrow> []
           | Some err \<Rightarrow> [ConsoleError [logged_message err]]))"
  by (simp add: streamResponse_def relay_append relay_yields
      split: sum.splits option.splits prod.splits)

lemma filter_map_Markdown:
  "filter is_markdown (map (\<lambda>c. Markdown (f c)) chunks) = map (\<lambda>c. Markdown (f c)) chunks"
  "filter is_chat (map (\<lambda>c. Markdown (f c)) chunks) = []"
  by (induction chunks) simp_all

lemma relay_streamResponse_chat:
  "filter is_chat (relay (streamResponse w model messages tools)) = [OllamaChat model messages]"
  by (simp add: relay_streamResponse filter_map_Markdown
      split: sum.splits option.splits prod.splits)

lemma relay_streamResponse_markdown:
  "chat_result w = Inr (chunks, failure) \<Longrightarrow>
     filter is_markdown (relay (streamResponse w model messages tools)) =
       map (\<lambda>c. Markdown (content (message c))) chunks"
  by (simp add: relay_streamResponse filter_map_Markdown split: option.splits)

lemma agentHandler_reaches_chat:
  assumes "new_result w = None" and "ps_result w = None"
    and "snd (assertPullModel w (readModelFromConfig w)) = Inr ()"
  shows "fst (agentHandler w request context) =
           OllamaPs # fst (assertPullModel w (readModelFromConfig w)) @
           relay (streamResponse w (readModelFromConfig w)
             ([\<lparr>role = ''user'', content = BASE_PROMPT\<rparr>] @ appendAssistantHistory context @
              [\<lparr>role = ''user'', content = prompt request\<rparr>])
             (getTools w))"
proof -
  obtain e2 where pm: "assertPullModel w (readModelFromConfig w) = (e2, Inr ())"
    using assms(3) by (cases "assertPullModel w (readModelFromConfig w)") simp
  show ?thesis
    by (simp add: agentHandler_def agentHandler_try_def assertOllamaRunning_def Let_def
        assms(1,2) pm)
qed

lemma agentHandler_failure_handled:
  "agentHandler_try w request context = (effects, Inl err) \<Longrightarrow>
     fst (agentHandler w request context) =
       effects @ [LogError err, ConsoleLog [LErr err]] @
       (if connectivity_error err
        then [Markdown (connectivity_message (readOllamaHostFromConfig w) err)]
        else [Markdown generic_message])"
  by (simp add: agentHandler_def handleError_def)

text \<open>
  C5. Once the chat call is reached and opens, the trace of the turn is: the steps before
  the chat call, the generator's console lines and the chat call, then one markdown call
  on the chat response stream for each chunk the chat stream delivered, in order, each
  carrying that chunk's text content alone, and only then the console line of a stream
  that raised. So the markdown calls on the stream are the chunks' contents, one for one
  and in order, and nothing is held back: a chunk yielded between two effects of the
  generator is written between them.
\<close>

theorem agentHandler_relays_chunks:
  assumes "new_result w = None" and "ps_result w = None"
    and "snd (assertPullModel w (readModelFromConfig w)) = Inr ()"
    and "chat_result w = Inr (chunks, failure)"
  shows "fst (agentHandler w request context) =
           OllamaPs # fst (assertPullModel w (readModelFromConfig w)) @
           [ConsoleLog [LStr ''Using model:'', LStr (readModelFromConfig w)],
            ConsoleLog [LStr (readOllamaHostFromConfig w @ ''/api/chat'')],
            ConsoleLog
              [LMessages
                ([\<lparr>role = ''user'', content = BASE_PROMPT\<rparr>] @
                 appendAssistantHistory context @
                 [\<lparr>role = ''user'', content = prompt request\<rparr>])],
            ConsoleLog [LTools (getTools w)],
            OllamaChat (readModelFromConfig w)
              ([\<lparr>role = ''user'', content = BASE_PROMPT\<rparr>] @
               appendAssistantHistory context @
               [\<lparr>role = ''user'', content = prompt request\<rparr>])] @
           map (\<lambda>c. Markdown (content (message c))) chunks @
           (case failure of
              None \<Rightarrow> []
            | Some err \<Rightarrow> [ConsoleError [logged_message err]])
         \<and> filter is_markdown (fst (agentHandler w request context)) =
             map (\<lambda>c. Markdown (content (message c))) chunks
         \<and> relay (items @ [Yield fragment] @ items') =
             relay items @ [Markdown (content (message fragment))] @ relay items'"
proof -
  have whole: "fst (agentHandler w request context) =
           OllamaPs # fst (assertPullModel w (readModelFromConfig w)) @
           [ConsoleLog [LStr ''Using model:'', LStr (readModelFromConfig w)],
            ConsoleLog [LStr (readOllamaHostFromConfig w @ ''/api/chat'')],
            ConsoleLog
              [LMessages
                ([\<lparr>role = ''user'', content = BASE_PROMPT\<rparr>] @
                 appendAssistantHistory context @
                 [\<lparr>role = ''user'', content = prompt request\<rparr>])],
            ConsoleLog [LTools (getTools w)],
            OllamaChat (readModelFromConfig w)
              ([\<lparr>role = ''user'', content = BASE_PROMPT\<rparr>] @
               appendAssistantHistory context @
               [\<lparr>role = ''user'', content = prompt request\<rparr>])] @
           map (\<lambda>c. Markdown (content (message c))) chunks @
           (case failure of
              None \<Rightarrow> []
            | Some err \<Rightarrow> [ConsoleError [logged_message err]])"
    by (simp add: agentHandler_reaches_chat[OF assms(1-3)] relay_streamResponse assms(4))
  have projected: "filter is_markdown (fst (agentHandler w request context)) =
      map (\<lambda>c. Markdown (content (message c))) chunks"
    by (simp add: agentHandler_reaches_chat[OF assms(1-3)] assertPullModel_calls(2)
        relay_streamResponse_markdown[OF assms(4)])
  have placed: "relay (items @ [Yield fragment] @ items') =
      relay items @ [Markdown (content (message fragment))] @ relay items'"
    by (simp add: relay_append)
  show ?thesis
    using whole projected placed by (simp only: simp_thms)
qed

theorem agentHandler_relays_chunks_witness:
  "new_result world_ready = None \<and> ps_result world_ready = None
   \<and> snd (assertPullModel world_ready (readModelFromConfig world_ready)) = Inr ()
   \<and> filter is_markdown
       (fst (agentHandler world_ready \<lparr>prompt = ''hi''\<rparr> \<lparr>history = []\<rparr>)) =
     [Markdown ''Hel'', Markdown ''lo'']
   \<and> fst (agentHandler world_ready \<lparr>prompt = ''hi''\<rparr> \<lparr>history = []\<rparr>) =
     [OllamaPs, OllamaList,
      ConsoleLog [LStr ''Using model:'', LStr ''deepseek-coder:1.3b''],
      ConsoleLog [LStr ''http://localhost:11434/api/chat''],
      ConsoleLog
        [LMessages
          [\<lparr>role = ''user'', content = ''You are a helpful assistant.''\<rparr>,
           \<lparr>role = ''user'', content = ''hi''\<rparr>]],
      ConsoleLog [LTools []],
      OllamaChat ''deepseek-coder:1.3b''
        [\<lparr>role = ''user'', content = ''You are a helpful assistant.''\<rparr>,
         \<lparr>role = ''user'', content = ''hi''\<rparr>],
      Markdown ''Hel'', Markdown ''lo'']
   \<and> new_result world_stream_breaks = None \<and> ps_result world_stream_breaks = None
   \<and> snd (assertPullModel world_stream_breaks (readModelFromConfig world_stream_breaks)) =
       Inr ()
   \<and> fst (agentHandler world_stream_breaks \<lparr>prompt = ''hi''\<rparr> \<lparr>history = []\<rparr>) =
     [OllamaPs, OllamaList,
      ConsoleLog [LStr ''Using model:'', LStr ''deepseek-coder:1.3b''],
      ConsoleLog [LStr ''http://localhost:11434/api/chat''],
      ConsoleLog
        [LMessages
          [\<lparr>role = ''user'', content = ''You are a helpful assistant.''\<rparr>,
           \<lparr>role = ''user'', content = ''hi''\<rparr>]],
      ConsoleLog [LTools []],
      OllamaChat ''deepseek-coder:1.3b''
        [\<lparr>role = ''user'', content = ''You are a helpful assistant.''\<rparr>,
         \<lparr>role = ''user'', content = ''hi''\<rparr>],
      Markdown ''Hel'', ConsoleError [LStr ''unexpected EOF'']]"
proof -
  have a: "new_result world_ready = None" and b: "ps_result world_ready = None"
    by (simp_all add: world_ready_def)
  have m: "readModelFromConfig world_ready = ''deepseek-coder:1.3b''"
    by (simp add: world_ready_def readModelFromConfig_def MODEL_def)
  have p: "assertPullModel world_ready ''deepseek-coder:1.3b'' = ([OllamaList], Inr ())"
    by (simp add: world_ready_def assertPullModel_def startsWith_def)
  have c: "snd (assertPullModel world_ready (readModelFromConfig world_ready)) = Inr ()"
    by (simp add: m p)
  have d: "chat_result world_ready =
      Inr ([\<lparr>message = \<lparr>role = ''assistant'', content = ''Hel''\<rparr>\<rparr>,
            \<lparr>message = \<lparr>role = ''assistant'', content = ''lo''\<rparr>\<rparr>], None)"
    by (simp add: world_ready_def)
  have h: "readOllamaHostFromConfig world_ready = ''http://localhost:11434''"
    by (simp add: world_ready_def readOllamaHostFromConfig_def OLLAMA_HOST_def)
  have t: "getTools world_ready = []"
    by (simp add: world_ready_def getTools_def)
  have n: "appendAssistantHistory \<lparr>history = []\<rparr> = []"
    by (simp add: appendAssistantHistory_def)
  have a': "new_result world_stream_breaks = None"
    and b': "ps_result world_stream_breaks = None"
    by (simp_all add: world_stream_breaks_def world_ready_def)
  have m': "readModelFromConfig world_stream_breaks = ''deepseek-coder:1.3b''"
    by (simp add: world_stream_breaks_def world_ready_def readModelFromConfig_def MODEL_def)
  have p': "assertPullModel world_stream_breaks ''deepseek-coder:1.3b'' = ([OllamaList], Inr ())"
    by (simp add: world_stream_breaks_def world_ready_def assertPullModel_def startsWith_def)
  have c': "snd (assertPullModel world_stream_breaks (readModelFromConfig world_stream_breaks)) =
      Inr ()"
    by (simp add: m' p')
  have d': "chat_result world_stream_breaks =
      Inr ([\<lparr>message = \<lparr>role = ''assistant'', content = ''Hel''\<rparr>\<rparr>],
           Some (plain_error ''unexpected EOF''))"
    by (simp add: world_stream_breaks_def)
  have h': "readOllamaHostFromConfig world_stream_breaks = ''http://localhost:11434''"
    by (simp add: world_stream_breaks_def world_ready_def readOllamaHostFromConfig_def
        OLLAMA_HOST_def)
  have t': "getTools world_stream_breaks = []"
    by (simp add: world_stream_breaks_def world_ready_def getTools_def)
  have l': "logged_message (plain_error ''unexpected EOF'') = LStr ''unexpected EOF''"
    by (simp add: logged_message_def plain_error_def)
  show ?thesis
    using a b c a' b' c'
      agentHandler_relays_chunks
        [OF a b c d, of "\<lparr>prompt = ''hi''\<rparr>" "\<lparr>history = []\<rparr>" "[]"
           "\<lparr>message = \<lparr>role = ''assistant'', content = ''Hel''\<rparr>\<rparr>" "[]"]
      agentHandler_relays_chunks
        [OF a' b' c' d', of "\<lparr>prompt = ''hi''\<rparr>" "\<lparr>history = []\<rparr>" "[]"
           "\<lparr>message = \<lparr>role = ''assistant'', content = ''Hel''\<rparr>\<rparr>" "[]"]
    by (simp add: m p h t n m' p' h' t' l' BASE_PROMPT_def)
qed

text \<open>
  C9. Once the chat call is reached, the trace holds exactly one chat call, and the
  messages passed to it are the preamble message (the base prompt, sent with role user),
  then the messages projected from the history, then the message carrying the new prompt.
\<close>

theorem agentHandler_chat_messages:
  assumes "new_result w = None" and "ps_result w = None"
    and "snd (assertPullModel w (readModelFromConfig w)) = Inr ()"
  shows "filter is_chat (fst (agentHandler w request context)) =
           [OllamaChat (readModelFromConfig w)
              ([\<lparr>role = ''user'', content = BASE_PROMPT\<rparr>] @
               appendAssistantHistory context @
               [\<lparr>role = ''user'', content = prompt request\<rparr>])]"
  by (simp only: agentHandler_reaches_chat[OF assms] filter.simps filter_append
      assertPullModel_calls(1) relay_streamResponse_chat is_chat.simps if_False append_Nil)

theorem agentHandler_chat_messages_witness:
  "new_result world_ready = None \<and> ps_result world_ready = None
   \<and> snd (assertPullModel world_ready (readModelFromConfig world_ready)) = Inr ()
   \<and> filter is_chat
       (fst (agentHandler world_ready \<lparr>prompt = ''and now?''\<rparr>
          \<lparr>history = [ChatRequestTurn ''hi'', ChatResponseTurn [''hello'']]\<rparr>)) =
     [OllamaChat ''deepseek-coder:1.3b''
        [\<lparr>role = ''user'', content = ''You are a helpful assistant.''\<rparr>,
         \<lparr>role = ''user'', content = ''hi''\<rparr>,
         \<lparr>role = ''assistant'', content = ''hello''\<rparr>,
         \<lparr>role = ''user'', content = ''and now?''\<rparr>]]"
proof -
  have a: "new_result world_ready = None" and b: "ps_result world_ready = None"
    by (simp_all add: world_ready_def)
  have c: "snd (assertPullModel world_ready (readModelFromConfig world_ready)) = Inr ()"
    by (simp add: world_ready_def assertPullModel_def readModelFromConfig_def MODEL_def
        startsWith_def)
  have m: "readModelFromConfig world_ready = ''deepseek-coder:1.3b''"
    by (simp add: world_ready_def readModelFromConfig_def MODEL_def)
  have h: "appendAssistantHistory \<lparr>history = [ChatRequestTurn ''hi'', ChatResponseTurn [''hello'']]\<rparr> =
      [\<lparr>role = ''user'', content = ''hi''\<rparr>, \<lparr>role = ''assistant'', content = ''hello''\<rparr>]"
    by (simp add: appendAssistantHistory_def startsWith_def HIDDEN_ERROR_MESSAGE_PLACEHOLDER_def)
  show ?thesis
    using a b c
      agentHandler_chat_messages[OF a b c, of "\<lparr>prompt = ''and now?''\<rparr>"
        "\<lparr>history = [ChatRequestTurn ''hi'', ChatResponseTurn [''hello'']]\<rparr>"]
    by (simp add: m h BASE_PROMPT_def)
qed

text \<open>
  C7. Whatever the outside world answers, the handler returns the result whose
  \<open>metadata.command\<close> is the empty string; a turn in which a step raises is one case.
\<close>

theorem agentHandler_returns_empty_command:
  "snd (agentHandler w request context) = \<lparr>metadata = \<lparr>command = ''''\<rparr>\<rparr>"
  by (simp add: agentHandler_def split: prod.splits sum.splits)

theorem agentHandler_returns_empty_command_witness:
  "snd (agentHandler_try (world_ready\<lparr>ps_result := Some refused_directly\<rparr>)
          \<lparr>prompt = ''hi''\<rparr> \<lparr>history = []\<rparr>) = Inl refused_directly
   \<and> snd (agentHandler (world_ready\<lparr>ps_result := Some refused_directly\<rparr>)
          \<lparr>prompt = ''hi''\<rparr> \<lparr>history = []\<rparr>) = \<lparr>metadata = \<lparr>command = ''''\<rparr>\<rparr>"
  using agentHandler_returns_empty_command
      [of "world_ready\<lparr>ps_result := Some refused_directly\<rparr>" "\<lparr>prompt = ''hi''\<rparr>"
          "\<lparr>history = []\<rparr>"]
  by (simp add: agentHandler_try_def assertOllamaRunning_def world_ready_def Let_def)

text \<open>
  C8. A chat stream that delivers one chunk and then raises an error that is not a
  connectivity error: the generator catches the error and writes its message to the
  console; the handler's \<open>catch\<close> is never entered, so nothing is recorded by the
  telemetry logger and no apology is rendered. The trace holds the relayed chunk and the
  console line, and neither a telemetry record nor any other markdown.
\<close>

theorem agentHandler_stream_failure_swallowed:
  "\<not> connectivity_error (plain_error ''unexpected EOF'')
   \<and> fst (agentHandler world_stream_breaks \<lparr>prompt = ''hi''\<rparr> \<lparr>history = []\<rparr>) =
     [OllamaPs, OllamaList,
      ConsoleLog [LStr ''Using model:'', LStr ''deepseek-coder:1.3b''],
      ConsoleLog [LStr ''http://localhost:11434/api/chat''],
      ConsoleLog
        [LMessages
          [\<lparr>role = ''user'', content = ''You are a helpful assistant.''\<rparr>,
           \<lparr>role = ''user'', content = ''hi''\<rparr>]],
      ConsoleLog [LTools []],
      OllamaChat ''deepseek-coder:1.3b''
        [\<lparr>role = ''user'', content = ''You are a helpful assistant.''\<rparr>,
         \<lparr>role = ''user'', content = ''hi''\<rparr>],
      Markdown ''Hel'', ConsoleError [LStr ''unexpected EOF'']]
   \<and> filter is_shown_or_recorded
       (fst (agentHandler world_stream_breaks \<lparr>prompt = ''hi''\<rparr> \<lparr>history = []\<rparr>)) =
     [Markdown ''Hel'']"
proof -
  have run: "fst (agentHandler world_stream_breaks \<lparr>prompt = ''hi''\<rparr> \<lparr>history = []\<rparr>) =
     [OllamaPs, OllamaList,
      ConsoleLog [LStr ''Using model:'', LStr ''deepseek-coder:1.3b''],
      ConsoleLog [LStr ''http://localhost:11434/api/chat''],
      ConsoleLog
        [LMessages
          [\<lparr>role = ''user'', content = ''You are a helpful assistant.''\<rparr>,
           \<lparr>role = ''user'', content = ''hi''\<rparr>]],
      ConsoleLog [LTools []],
      OllamaChat ''deepseek-coder:1.3b''
        [\<lparr>role = ''user'', content = ''You are a helpful assistant.''\<rparr>,
         \<lparr>role = ''user'', content = ''hi''\<rparr>],
      Markdown ''Hel'', ConsoleError [LStr ''unexpected EOF'']]"
    by (simp add: agentHandler_def agentHandler_try_def assertOllamaRunning_def
        assertPullModel_def streamResponse_def world_stream_breaks_def world_ready_def
        plain_error_def logged_message_def readModelFromConfig_def
        readOllamaHostFromConfig_def MODEL_def OLLAMA_HOST_def BASE_PROMPT_def getTools_def
        appendAssistantHistory_def startsWith_def Let_def)
  have plain: "\<not> connectivity_error (plain_error ''unexpected EOF'')"
    by (simp add: connectivity_error_def plain_error_def cause_code_of_def)
  show ?thesis
    using plain by (simp add: run)
qed

end
